theory Spec2Isabelle
  imports Main
begin

section \<open>JavaScript values\<close>

text \<open>
  The values the programs read from their configuration and arguments. Numbers are
  modelled by the integers together with \<open>NaN\<close>; a fractional number behaves like a
  non-zero integer in every test made below (truthiness, strict comparison with 0,
  membership in \<open>[2, 3]\<close>). Objects are plain data: a list of own properties, each key at
  most once, without accessors.
\<close>

datatype jsval =
    JUndefined
  | JNull
  | JBool bool
  | JNum int
  | JNaN
  | JStr string
  | JArr "jsval list"
  | JObj "(string \<times> jsval) list"

datatype error = Error string | TypeError string

datatype 'a promise = Resolved 'a | Rejected error

text \<open>ToBoolean: what \<open>if (v)\<close>, \<open>!v\<close>, \<open>a || b\<close> and \<open>a && b\<close> test.\<close>

fun truthy :: "jsval \<Rightarrow> bool" where
  "truthy JUndefined = False"
| "truthy JNull = False"
| "truthy (JBool b) = b"
| "truthy (JNum n) = (n \<noteq> 0)"
| "truthy JNaN = False"
| "truthy (JStr s) = (s \<noteq> [])"
| "truthy (JArr xs) = True"
| "truthy (JObj kvs) = True"

text \<open>\<open>a || b\<close>: the left operand when it is truthy, the right one otherwise.\<close>

definition js_or :: "jsval \<Rightarrow> jsval \<Rightarrow> jsval" where
  "js_or a b = (if truthy a then a else b)"

section \<open>The session wrapper: src/lib/EyesStorybook.js\<close>

record rectangle_size =
  width :: nat
  height :: nat

text \<open>A decoded image (the SDK's MutableImage), as far as the wrapper looks at it.\<close>

record image =
  image_width :: nat
  image_height :: nat

datatype eyes_simple_screenshot = EyesSimpleScreenshot image

text \<open>
  Modelled from the spec: \<open>EyesSimpleScreenshot.getSize\<close> belongs to the SDK core, which
  is not among the sources. The spec speaks of "the captured image's own dimensions": the
  size of a screenshot is the width and height of the image it wraps.
\<close>

fun getSize :: "eyes_simple_screenshot \<Rightarrow> rectangle_size" where
  "getSize (EyesSimpleScreenshot img) = \<lparr>width = image_width img, height = image_height img\<rparr>"

text \<open>
  The fields of an \<open>EyesStorybook\<close> instance. \<open>this_viewportSizeHandler\<close> is the content of
  the base class's property handler (\<open>None\<close> is \<open>null\<close>, its content until somebody sets
  it). \<open>checkSingleWindowBase_calls\<close> records, in order, the \<open>title\<close> argument of every call
  made to \<open>super.checkSingleWindowBase\<close>: one entry per checkpoint sent to the backend.
  \<open>base_serverUrl\<close> and \<open>base_proxy\<close> are \<open>None\<close> while the base class keeps its defaults.
\<close>

record eyes_storybook =
  base_apiKey :: jsval
  base_serverUrl :: "jsval option"
  base_proxy :: "jsval option"
  this_viewportSizeHandler :: "rectangle_size option"
  this_title :: jsval
  this_screenshot :: "eyes_simple_screenshot option"
  this_screenshotUrl :: jsval
  this_inferred :: jsval
  checkSingleWindowBase_calls :: "jsval list"

record eyes_configs =
  cfg_apiKey :: jsval
  cfg_serverUrl :: jsval
  cfg_proxy :: jsval

definition constructor :: "eyes_configs \<Rightarrow> eyes_storybook" where
  "constructor configs =
     \<lparr>base_apiKey = cfg_apiKey configs,
      base_serverUrl = (if truthy (cfg_serverUrl configs) then Some (cfg_serverUrl configs) else None),
      base_proxy = (if truthy (cfg_proxy configs) then Some (cfg_proxy configs) else None),
      this_viewportSizeHandler = None,
      this_title = JUndefined,
      this_screenshot = None,
      this_screenshotUrl = JUndefined,
      this_inferred = JStr '''',
      checkSingleWindowBase_calls = []\<rparr>"

text \<open>
  \<open>open\<close>: \<open>openBase_result\<close> is what \<open>super.openBase(appName, testName)\<close> settles to. The
  viewport size is stored by the \<open>then\<close> callback, so only when \<open>openBase\<close> resolved.
  The argument is a well-formed size (the documented \<open>{width, height}\<close>).
\<close>

definition open_test ::
  "string \<Rightarrow> string \<Rightarrow> rectangle_size \<Rightarrow> jsval promise \<Rightarrow> eyes_storybook
     \<Rightarrow> jsval promise \<times> eyes_storybook" where
  "open_test appName testName viewportSize openBase_result this =
     (case openBase_result of
        Resolved _ \<Rightarrow> (Resolved JUndefined, this\<lparr>this_viewportSizeHandler := Some viewportSize\<rparr>)
      | Rejected err \<Rightarrow> (Rejected err, this))"

text \<open>
  \<open>checkImage\<close> and \<open>checkUrl\<close>: the three field assignments, then the single call of
  \<open>super.checkSingleWindowBase\<close>, whose promise (\<open>base_result\<close>) is returned as it is.
\<close>

definition checkImage ::
  "image \<Rightarrow> jsval \<Rightarrow> jsval promise \<Rightarrow> eyes_storybook \<Rightarrow> jsval promise \<times> eyes_storybook" where
  "checkImage screenshot title base_result this =
     (let this1 = this\<lparr>this_title := js_or title (JStr '''')\<rparr>;
          this2 = this1\<lparr>this_screenshot := Some (EyesSimpleScreenshot screenshot)\<rparr>;
          this3 = this2\<lparr>this_screenshotUrl := JUndefined\<rparr>
      in (base_result,
          this3\<lparr>checkSingleWindowBase_calls := checkSingleWindowBase_calls this3 @ [title]\<rparr>))"

definition checkUrl ::
  "jsval \<Rightarrow> jsval \<Rightarrow> jsval promise \<Rightarrow> eyes_storybook \<Rightarrow> jsval promise \<times> eyes_storybook" where
  "checkUrl imageLocation title base_result this =
     (let this1 = this\<lparr>this_title := js_or title (JStr '''')\<rparr>;
          this2 = this1\<lparr>this_screenshot := None\<rparr>;
          this3 = this2\<lparr>this_screenshotUrl := imageLocation\<rparr>
      in (base_result,
          this3\<lparr>checkSingleWindowBase_calls := checkSingleWindowBase_calls this3 @ [title]\<rparr>))"

text \<open>\<open>close(throwEx = true)\<close>: an omitted argument (\<open>JUndefined\<close>) takes the default.\<close>

definition close :: "jsval \<Rightarrow> eyes_storybook \<Rightarrow> jsval promise \<times> eyes_storybook" where
  "close throwEx this =
     (let throwEx = (if throwEx = JUndefined then JBool True else throwEx)
      in (Resolved JUndefined, this))"

definition getViewportSize :: "eyes_storybook \<Rightarrow> rectangle_size option promise" where
  "getViewportSize this =
     (case this_screenshot this of
        Some s \<Rightarrow> Resolved (Some (getSize s))
      | None \<Rightarrow> Resolved (this_viewportSizeHandler this))"

definition setViewportSize :: "rectangle_size \<Rightarrow> eyes_storybook \<Rightarrow> jsval promise \<times> eyes_storybook" where
  "setViewportSize viewportSize this =
     (Resolved JUndefined, this\<lparr>this_viewportSizeHandler := Some viewportSize\<rparr>)"

definition getInferredEnvironment :: "eyes_storybook \<Rightarrow> jsval promise" where
  "getInferredEnvironment this = Resolved (this_inferred this)"

definition setInferredEnvironment :: "jsval \<Rightarrow> eyes_storybook \<Rightarrow> eyes_storybook" where
  "setInferredEnvironment inferred this = this\<lparr>this_inferred := inferred\<rparr>"

definition getScreenshot :: "eyes_storybook \<Rightarrow> eyes_simple_screenshot option promise" where
  "getScreenshot this = Resolved (this_screenshot this)"

definition getScreenshotUrl :: "eyes_storybook \<Rightarrow> jsval promise" where
  "getScreenshotUrl this = Resolved (this_screenshotUrl this)"

definition getTitle :: "eyes_storybook \<Rightarrow> jsval promise" where
  "getTitle this = Resolved (this_title this)"

text \<open>
  A client of a session: any sequence of calls of its state-changing methods, each with
  what the base class answered where the method asks it.
\<close>

datatype call =
    Open string string rectangle_size "jsval promise"
  | CheckImage image jsval "jsval promise"
  | CheckUrl jsval jsval "jsval promise"
  | Close jsval
  | SetViewportSize rectangle_size
  | SetInferredEnvironment jsval

fun perform :: "call \<Rightarrow> eyes_storybook \<Rightarrow> eyes_storybook" where
  "perform (Open a t v r) this = snd (open_test a t v r this)"
| "perform (CheckImage i t r) this = snd (checkImage i t r this)"
| "perform (CheckUrl u t r) this = snd (checkUrl u t r this)"
| "perform (Close e) this = snd (close e this)"
| "perform (SetViewportSize v) this = snd (setViewportSize v this)"
| "perform (SetInferredEnvironment i) this = setInferredEnvironment i this"

fun perform_all :: "call list \<Rightarrow> eyes_storybook \<Rightarrow> eyes_storybook" where
  "perform_all [] this = this"
| "perform_all (c # cs) this = perform_all cs (perform c this)"

section \<open>The command line programs: src/unnamed/part_000 and src/unnamed/part_001\<close>

text \<open>
  Two versions of the same script. The model starts where the configuration object has
  been loaded, at the block "Validating configuration", and follows the script to the end
  of the process.
\<close>

subsection \<open>Reading values\<close>

text \<open>\<open>a && b\<close>.\<close>

definition js_and :: "jsval \<Rightarrow> jsval \<Rightarrow> jsval" where
  "js_and a b = (if truthy a then b else a)"

text \<open>
  \<open>Array.prototype.includes\<close> compares with SameValueZero. An array or object of the
  configuration is never the same reference as an element of an array literal of the
  script.
\<close>

fun same_value_zero :: "jsval \<Rightarrow> jsval \<Rightarrow> bool" where
  "same_value_zero (JArr xs) v = False"
| "same_value_zero (JObj kvs) v = False"
| "same_value_zero u v = (u = v)"

definition includes_val :: "jsval list \<Rightarrow> jsval \<Rightarrow> bool" where
  "includes_val xs v = list_ex (\<lambda>x. same_value_zero x v) xs"

text \<open>
  \<open>v.name\<close> for the names \<open>width\<close> and \<open>height\<close>: a TypeError on \<open>undefined\<close> and \<open>null\<close>,
  the own property of an object, and \<open>undefined\<close> where there is none (no primitive and no
  array has a property of either name).
\<close>

fun get_property :: "jsval \<Rightarrow> string \<Rightarrow> error + jsval" where
  "get_property JUndefined name =
     Inl (TypeError (''Cannot read property '' @ name @ '' of undefined''))"
| "get_property JNull name =
     Inl (TypeError (''Cannot read property '' @ name @ '' of null''))"
| "get_property (JObj kvs) name =
     (case map_of kvs name of None \<Rightarrow> Inr JUndefined | Some v \<Rightarrow> Inr v)"
| "get_property v name = Inr JUndefined"

definition endsWith :: "string \<Rightarrow> char \<Rightarrow> bool" where
  "endsWith s c = (s \<noteq> [] \<and> last s = c)"

definition isArray :: "jsval \<Rightarrow> bool" where
  "isArray v = (case v of JArr xs \<Rightarrow> True | _ \<Rightarrow> False)"

text \<open>A non-negative whole number in a template literal: its decimal digits.\<close>

definition digit :: "nat \<Rightarrow> char" where
  "digit d = ''0123456789'' ! d"

function string_of_nat :: "nat \<Rightarrow> string" where
  "string_of_nat n =
     (if n < 10 then [digit n] else string_of_nat (n div 10) @ [digit (n mod 10)])"
  by pat_completeness auto
termination
  by (relation "measure id") auto

declare string_of_nat.simps [simp del]

subsection \<open>Configuration, arguments and surroundings\<close>

text \<open>
  The properties of the configuration object that either script reads from the validation
  on; a property that is absent is \<open>JUndefined\<close>. part_000 reads \<open>maxRunningBrowsers\<close> and
  \<open>useRenderer\<close>, part_001 \<open>maxConcurrency\<close>, \<open>useVisualGrid\<close> and \<open>skipStorybookBuild\<close>.
\<close>

record configs =
  apiKey :: jsval
  maxRunningBrowsers :: jsval
  maxConcurrency :: jsval
  storybookApp :: jsval
  storybookVersion :: jsval
  storybookAddress :: jsval
  viewportSize :: jsval
  useRenderer :: jsval
  useVisualGrid :: jsval
  skipStorybookBuild :: jsval
  appName :: jsval

record yargs =
  yargs_browser :: bool
  yargs_build :: bool
  yargs_debug :: bool

text \<open>The values a finished story is asked for (the SDK's TestResults getters).\<close>

record test_results =
  getName :: string
  getHostDisplaySize :: rectangle_size
  getIsNew :: bool
  isPassed :: bool
  getMismatches :: nat
  getMissing :: nat
  getSteps :: nat
  getAppUrls_getBatch :: string

text \<open>
  What the script finds around it after the validation: the working directory and its
  package.json, what \<open>StorybookUtils.retrieveStorybookVersion\<close> answers (\<open>app\<close> and
  \<open>version\<close>, or the error it throws), and the two promise chains that end in
  \<open>runner.testStories(stories)\<close>, each a function of the configuration it is given. The
  utilities and the runners are not among the sources: they are parameters.
\<close>

record environment =
  cwd :: string
  packageJson_exists :: bool
  packageJson_name :: jsval
  retrieveStorybookVersion :: "error + jsval \<times> jsval"
  rendering_flow :: "configs \<Rightarrow> test_results list promise"
  webDriver_flow :: "configs \<Rightarrow> test_results list promise"

text \<open>
  What is written to the console: the arguments of each \<open>console.log\<close> and \<open>console.error\<close>
  call, a coloured text as the text with its colour, an error value as itself.
\<close>

datatype console_arg = Txt string | Green string | Red string | ErrValue error | ErrStack error

datatype console_call = Log "console_arg list" | ConsoleError "console_arg list"

text \<open>
  How the process ends: on an exception nobody caught, thrown by the top level of the
  script, or in \<open>process.exit\<close> with a code, after the console calls of the results block.
\<close>

datatype process_end = Uncaught error | Exit int "console_call list"

text \<open>
  \<open>process.exit(code)\<close>; without an argument the code is \<open>process.exitCode\<close>, which neither
  script assigns, so 0.
\<close>

definition process_exit :: "int option \<Rightarrow> console_call list \<Rightarrow> process_end" where
  "process_exit code out = Exit (case code of None \<Rightarrow> 0 | Some c \<Rightarrow> c) out"

text \<open>The exit code of the process; Node ends on an uncaught exception with code 1.\<close>

fun exit_code :: "process_end \<Rightarrow> int" where
  "exit_code (Uncaught err) = 1"
| "exit_code (Exit c out) = c"

fun console_output :: "process_end \<Rightarrow> console_call list" where
  "console_output (Uncaught err) = []"
| "console_output (Exit c out) = out"

fun message :: "error \<Rightarrow> string" where
  "message (Error m) = m"
| "message (TypeError m) = m"

fun error_toString :: "error \<Rightarrow> string" where
  "error_toString (Error m) = (if m = [] then ''Error'' else ''Error: '' @ m)"
| "error_toString (TypeError m) = (if m = [] then ''TypeError'' else ''TypeError: '' @ m)"

text \<open>\<open>RectangleSize.toString\<close> of the SDK: width, \<open>x\<close>, height, as part_000 writes it out.\<close>

definition toString :: "rectangle_size \<Rightarrow> string" where
  "toString sz = string_of_nat (width sz) @ ''x'' @ string_of_nat (height sz)"

definition EYES_TEST_FAILED_EXIT_CODE :: int where
  "EYES_TEST_FAILED_EXIT_CODE = 130"

definition SUPPORTED_STORYBOOK3_APPS :: "jsval list" where
  "SUPPORTED_STORYBOOK3_APPS =
     [JStr ''react'', JStr ''vue'', JStr ''react-native'', JStr ''angular'', JStr ''polymer'']"

subsection \<open>Validating configuration\<close>

definition apiKey_missing :: string where
  "apiKey_missing =
     ''The Applitools API Key is missing. Please add it to your configuration file or set ENV key.''"

definition viewportSize_invalid :: string where
  "viewportSize_invalid = ''ViewportSize object should contains width and height properties.''"

text \<open>
  \<open>if (configs.storybookAddress) { if (!configs.storybookAddress.endsWith('/')) ... += '/' }\<close>.
  A truthy value that is not a string has no method \<open>endsWith\<close>: calling it is a TypeError.
\<close>

definition storybookAddress_step :: "configs \<Rightarrow> error + configs" where
  "storybookAddress_step configs =
     (if truthy (storybookAddress configs) then
        (case storybookAddress configs of
           JStr s \<Rightarrow>
             (if \<not> endsWith s CHR ''/'' then Inr (configs\<lparr>storybookAddress := JStr (s @ ''/'')\<rparr>)
              else Inr configs)
         | _ \<Rightarrow> Inl (TypeError ''configs.storybookAddress.endsWith is not a function''))
      else Inr configs)"

text \<open>
  part_001: \<open>configs.viewportSize.forEach(viewportSize => { if (!(viewportSize.width &&
  viewportSize.height)) throw ... })\<close>. \<open>height\<close> is read only when \<open>width\<close> is truthy.
\<close>

fun forEach_viewportSize_001 :: "jsval list \<Rightarrow> error + unit" where
  "forEach_viewportSize_001 [] = Inr ()"
| "forEach_viewportSize_001 (entry # rest) =
     (case get_property entry ''width'' of
        Inl err \<Rightarrow> Inl err
      | Inr w \<Rightarrow>
          (if truthy w then
             (case get_property entry ''height'' of
                Inl err \<Rightarrow> Inl err
              | Inr h \<Rightarrow>
                  (if \<not> truthy (js_and w h) then Inl (Error viewportSize_invalid)
                   else forEach_viewportSize_001 rest))
           else Inl (Error viewportSize_invalid)))"

text \<open>
  part_000: \<open>for (i = 0; i < l; ++i) if (!configs.viewportSize[i].width ||
  !configs.viewportSize[i].height) throw ...\<close>.
\<close>

fun for_viewportSize_000 :: "jsval list \<Rightarrow> error + unit" where
  "for_viewportSize_000 [] = Inr ()"
| "for_viewportSize_000 (entry # rest) =
     (case get_property entry ''width'' of
        Inl err \<Rightarrow> Inl err
      | Inr w \<Rightarrow>
          (if \<not> truthy w then Inl (Error viewportSize_invalid)
           else
             (case get_property entry ''height'' of
                Inl err \<Rightarrow> Inl err
              | Inr h \<Rightarrow>
                  (if \<not> truthy h then Inl (Error viewportSize_invalid)
                   else for_viewportSize_000 rest))))"

text \<open>\<open>if (configs.viewportSize) { if (!Array.isArray(...)) ... = [...]; <loop> }\<close>.\<close>

definition viewportSize_step ::
  "(jsval list \<Rightarrow> error + unit) \<Rightarrow> configs \<Rightarrow> error + configs" where
  "viewportSize_step loop configs =
     (if truthy (viewportSize configs) then
        (let configs =
               (if \<not> isArray (viewportSize configs)
                then configs\<lparr>viewportSize := JArr [viewportSize configs]\<rparr> else configs)
         in case viewportSize configs of
              JArr entries \<Rightarrow> (case loop entries of Inl err \<Rightarrow> Inl err | Inr u \<Rightarrow> Inr configs)
            | _ \<Rightarrow> Inr configs)
      else Inr configs)"

definition validating_configuration_001 :: "yargs \<Rightarrow> configs \<Rightarrow> error + configs" where
  "validating_configuration_001 args configs0 =
     (let configs = (if yargs_browser args then configs0\<lparr>useVisualGrid := JBool False\<rparr> else configs0);
          configs = (if yargs_build args then configs\<lparr>skipStorybookBuild := JBool False\<rparr> else configs)
      in
        if \<not> truthy (apiKey configs) then Inl (Error apiKey_missing)
        else if \<not> truthy (maxConcurrency configs) \<and> maxConcurrency configs \<noteq> JNum 0
          then Inl (Error ''maxConcurrency should be defined.'')
        else if truthy (storybookApp configs)
                \<and> \<not> includes_val SUPPORTED_STORYBOOK3_APPS (storybookApp configs)
          then Inl (Error
            ''storybookApp should be one of [react,vue,react-native,angular,polymer].'')
        else if truthy (storybookVersion configs)
                \<and> \<not> includes_val [JNum 2, JNum 3] (storybookVersion configs)
          then Inl (Error ''storybookVersion should be 2 or 3.'')
        else
          (case storybookAddress_step configs of
             Inl err \<Rightarrow> Inl err
           | Inr configs \<Rightarrow> viewportSize_step forEach_viewportSize_001 configs))"

definition validating_configuration_000 :: "configs \<Rightarrow> error + configs" where
  "validating_configuration_000 configs =
     (if \<not> truthy (apiKey configs) then Inl (Error apiKey_missing)
      else if \<not> truthy (maxRunningBrowsers configs) \<and> maxRunningBrowsers configs \<noteq> JNum 0
        then Inl (Error ''maxRunningBrowsers should be defined.'')
      else if truthy (storybookApp configs)
              \<and> \<not> includes_val [JStr ''react'', JStr ''vue''] (storybookApp configs)
        then Inl (Error (''storybookApp should be '' @ [CHR 0x22] @ ''react'' @ [CHR 0x22]
                          @ '' or '' @ [CHR 0x22] @ ''vue'' @ [CHR 0x22] @ ''.''))
      else if truthy (storybookVersion configs)
              \<and> \<not> includes_val [JNum 2, JNum 3] (storybookVersion configs)
        then Inl (Error ''storybookVersion should be 2 or 3.'')
      else
        (case storybookAddress_step configs of
           Inl err \<Rightarrow> Inl err
         | Inr configs \<Rightarrow> viewportSize_step for_viewportSize_000 configs))"

subsection \<open>Prepare and display results\<close>

text \<open>The body of \<open>results.forEach\<close> in part_001, on the exit code and the console so far.\<close>

definition report_result_001 ::
  "test_results \<Rightarrow> int \<times> console_call list \<Rightarrow> int \<times> console_call list" where
  "report_result_001 result acc =
     (let exitCode = fst acc; out = snd acc;
          storyTitle = getName result @ '' ['' @ toString (getHostDisplaySize result) @ ''] - ''
      in
        if getIsNew result then (exitCode, out @ [Log [Txt storyTitle, Green ''New'']])
        else if isPassed result then (exitCode, out @ [Log [Txt storyTitle, Green ''Passed'']])
        else
          (let stepsFailed = getMismatches result + getMissing result;
               out = out @ [Log [Txt storyTitle,
                       Red (''Failed '' @ string_of_nat stepsFailed @ '' of ''
                            @ string_of_nat (getSteps result))]]
           in (if exitCode < EYES_TEST_FAILED_EXIT_CODE then EYES_TEST_FAILED_EXIT_CODE
               else exitCode, out)))"

text \<open>
  The two handlers of part_001: \<open>.then(results => ...)\<close> on a promise that resolved,
  \<open>.catch(err => ...)\<close> on one that rejected.
\<close>

definition display_results_001 :: "yargs \<Rightarrow> test_results list promise \<Rightarrow> process_end" where
  "display_results_001 args promise =
     (case promise of
        Resolved results \<Rightarrow>
          (if length results > 0 then
             (let acc = fold report_result_001 results
                          (0, [Log [Txt (CHR 0x0A # ''[EYES: TEST RESULTS]:'')]]);
                  out = snd acc @ [Log [Txt ''See details at'', Txt (getAppUrls_getBatch (results ! 0))]]
              in process_exit (Some (fst acc)) out)
           else process_exit (Some 0) [Log [Txt ''Test is finished but no results returned.'']])
      | Rejected err \<Rightarrow>
          process_exit (Some 1)
            ([ConsoleError [ErrValue err]]
             @ (if \<not> yargs_debug args then [Log [Txt ''Run with --debug flag to see more logs.'']]
                else [])))"

text \<open>The body of \<open>results.forEach\<close> in part_000.\<close>

definition report_result_000 :: "test_results \<Rightarrow> console_call list \<Rightarrow> console_call list" where
  "report_result_000 result out =
     (let storyTitle = getName result @ '' ['' @ string_of_nat (width (getHostDisplaySize result))
                         @ ''x'' @ string_of_nat (height (getHostDisplaySize result)) @ ''] - ''
      in
        if getIsNew result then out @ [Log [Txt storyTitle, Green ''New'']]
        else if isPassed result then out @ [Log [Txt storyTitle, Green ''Passed'']]
        else out @ [Log [Txt storyTitle,
               Red (''Failed '' @ string_of_nat (getMismatches result + getMissing result)
                    @ '' of '' @ string_of_nat (getSteps result))]])"

definition display_results_000 :: "yargs \<Rightarrow> test_results list promise \<Rightarrow> process_end" where
  "display_results_000 args promise =
     (case promise of
        Resolved results \<Rightarrow>
          (if length results > 0 then
             (let out = fold report_result_000 results
                          [Log [Txt [CHR 0x0A]], Log [Txt ''[EYES: TEST RESULTS]:'']];
                  out = out @ [Log [Txt ''See details at'', Txt (getAppUrls_getBatch (results ! 0))]]
              in process_exit None out)
           else process_exit None [Log [Txt ''Test is finished but no results returned.'']])
      | Rejected err \<Rightarrow>
          process_exit (Some 1)
            ([ConsoleError [Txt (if message err \<noteq> [] then message err else error_toString err)]]
             @ (if yargs_debug args then [ConsoleError [Txt ''DEBUG:'', ErrStack err]]
                else [Log [Txt ''Run with --debug flag to see more logs.'']])))"

subsection \<open>The scripts, from the validation to the end of the process\<close>

text \<open>
  After the validation: package.json is looked up and parsed, the configuration is
  completed from it, and the promise chain of the chosen mode is started; its outcome goes
  to the results block. An exception thrown before that ends the process uncaught.
\<close>

definition complete_configs :: "environment \<Rightarrow> jsval \<times> jsval \<Rightarrow> configs \<Rightarrow> configs" where
  "complete_configs env packageVersion configs0 =
     (let configs = (if \<not> truthy (appName configs0)
                     then configs0\<lparr>appName := packageJson_name env\<rparr> else configs0);
          configs = (if \<not> truthy (storybookApp configs)
                     then configs\<lparr>storybookApp := fst packageVersion\<rparr> else configs);
          configs = (if \<not> truthy (storybookVersion configs)
                     then configs\<lparr>storybookVersion := snd packageVersion\<rparr> else configs)
      in configs)"

definition eyes_storybook_001 :: "yargs \<Rightarrow> environment \<Rightarrow> configs \<Rightarrow> process_end" where
  "eyes_storybook_001 args env configs0 =
     (case validating_configuration_001 args configs0 of
        Inl err \<Rightarrow> Uncaught err
      | Inr configs \<Rightarrow>
          (if \<not> packageJson_exists env
           then Uncaught (Error (''package.json not found on path: '' @ cwd env @ ''/package.json''))
           else
             (case retrieveStorybookVersion env of
                Inl err \<Rightarrow> Uncaught err
              | Inr packageVersion \<Rightarrow>
                  (let configs = complete_configs env packageVersion configs;
                       promise = (if truthy (useVisualGrid configs) then rendering_flow env configs
                                  else webDriver_flow env configs)
                   in display_results_001 args promise))))"

definition eyes_storybook_000 :: "yargs \<Rightarrow> environment \<Rightarrow> configs \<Rightarrow> process_end" where
  "eyes_storybook_000 args env configs0 =
     (case validating_configuration_000 configs0 of
        Inl err \<Rightarrow> Uncaught err
      | Inr configs \<Rightarrow>
          (if \<not> packageJson_exists env
           then Uncaught (Error (''package.json not found on path: '' @ cwd env @ ''/package.json''))
           else
             (case retrieveStorybookVersion env of
                Inl err \<Rightarrow> Uncaught err
              | Inr packageVersion \<Rightarrow>
                  (let configs = complete_configs env packageVersion configs;
                       promise = (if truthy (useRenderer configs) then rendering_flow env configs
                                  else webDriver_flow env configs)
                   in display_results_000 args promise))))"

section \<open>Notions of the specification\<close>

text \<open>
  The session invariant: the in-memory screenshot and the screenshot URL are never both
  set.
\<close>

definition exclusive :: "eyes_storybook \<Rightarrow> bool" where
  "exclusive this = (this_screenshot this = None \<or> this_screenshotUrl this = JUndefined)"

text \<open>
  A result that is neither new nor passed, the one summary line the specification asks for
  per story (name, host display size, outcome label), and the test for a line that carries
  the red label.
\<close>

definition not_new_not_passed :: "test_results \<Rightarrow> bool" where
  "not_new_not_passed r = (\<not> getIsNew r \<and> \<not> isPassed r)"

definition summary_line :: "test_results \<Rightarrow> console_call" where
  "summary_line r =
     Log [Txt (getName r @ '' ['' @ string_of_nat (width (getHostDisplaySize r)) @ ''x''
               @ string_of_nat (height (getHostDisplaySize r)) @ ''] - ''),
          (if getIsNew r then Green ''New''
           else if isPassed r then Green ''Passed''
           else Red (''Failed '' @ string_of_nat (getMismatches r + getMissing r) @ '' of ''
                     @ string_of_nat (getSteps r)))]"

fun reported_failed :: "console_call \<Rightarrow> bool" where
  "reported_failed (Log [Txt t, Red l]) = True"
| "reported_failed c = False"

text \<open>
  The entries of the viewport-size setting (the elements of an array, a single truthy
  value as the only entry, nothing otherwise), and an entry that lacks a \<open>width\<close> or a
  \<open>height\<close> property.
\<close>

fun has_property :: "jsval \<Rightarrow> string \<Rightarrow> bool" where
  "has_property (JObj kvs) name = (map_of kvs name \<noteq> None)"
| "has_property v name = False"

definition viewport_entries :: "jsval \<Rightarrow> jsval list" where
  "viewport_entries v = (if truthy v then (case v of JArr xs \<Rightarrow> xs | _ \<Rightarrow> [v]) else [])"

definition lacks_width_or_height :: "jsval \<Rightarrow> bool" where
  "lacks_width_or_height v = (\<not> has_property v ''width'' \<or> \<not> has_property v ''height'')"

section \<open>Concrete inputs\<close>

definition example_configs :: eyes_configs where
  "example_configs = \<lparr>cfg_apiKey = JStr ''key'', cfg_serverUrl = JUndefined, cfg_proxy = JUndefined\<rparr>"

definition example_yargs :: yargs where
  "example_yargs = \<lparr>yargs_browser = False, yargs_build = False, yargs_debug = False\<rparr>"

definition passed_result :: test_results where
  "passed_result =
     \<lparr>getName = ''Button'', getHostDisplaySize = \<lparr>width = 800, height = 600\<rparr>,
      getIsNew = False, isPassed = True, getMismatches = 0, getMissing = 0, getSteps = 1,
      getAppUrls_getBatch = ''https://eyes.applitools.com/app/batches/1''\<rparr>"

definition new_result :: test_results where
  "new_result = passed_result\<lparr>getName := ''Card'', getIsNew := True, isPassed := False\<rparr>"

definition mismatch_result :: test_results where
  "mismatch_result = passed_result\<lparr>isPassed := False, getMismatches := 1\<rparr>"

definition unresolved_result :: test_results where
  "unresolved_result = passed_result\<lparr>isPassed := False\<rparr>"

definition example_environment :: environment where
  "example_environment =
     \<lparr>cwd = ''/project'', packageJson_exists = True, packageJson_name = JStr ''project'',
      retrieveStorybookVersion = Inr (JStr ''react'', JNum 3),
      rendering_flow = (\<lambda>c. Resolved [passed_result]),
      webDriver_flow = (\<lambda>c. Resolved [passed_result])\<rparr>"

definition undefined_configs :: configs where
  "undefined_configs =
     \<lparr>apiKey = JUndefined, maxRunningBrowsers = JUndefined, maxConcurrency = JUndefined,
      storybookApp = JUndefined, storybookVersion = JUndefined, storybookAddress = JUndefined,
      viewportSize = JUndefined, useRenderer = JUndefined, useVisualGrid = JUndefined,
      skipStorybookBuild = JUndefined, appName = JUndefined\<rparr>"

definition zero_concurrency_configs :: configs where
  "zero_concurrency_configs =
     undefined_configs\<lparr>apiKey := JStr ''key'', maxRunningBrowsers := JNum 0, maxConcurrency := JNum 0\<rparr>"

definition missing_concurrency_configs :: configs where
  "missing_concurrency_configs = undefined_configs\<lparr>apiKey := JStr ''key''\<rparr>"

definition no_height_configs :: configs where
  "no_height_configs =
     undefined_configs\<lparr>apiKey := JStr ''key'', maxRunningBrowsers := JNum 5, maxConcurrency := JNum 5,
        viewportSize := JArr [JObj [(''width'', JNum 800), (''height'', JNum 600)],
                              JObj [(''width'', JNum 1024)]]\<rparr>"

section \<open>Properties of the session wrapper\<close>

lemma perform_all_append: "perform_all (cs @ ds) this = perform_all ds (perform_all cs this)"
  by (induction cs arbitrary: this) simp_all

lemma perform_exclusive: "exclusive this \<Longrightarrow> exclusive (perform c this)"
  by (cases c)
     (auto simp: exclusive_def open_test_def checkImage_def checkUrl_def close_def
        setViewportSize_def setInferredEnvironment_def Let_def split: promise.splits)

lemma perform_all_exclusive: "exclusive this \<Longrightarrow> exclusive (perform_all cs this)"
  by (induction cs arbitrary: this) (simp_all add: perform_exclusive)

lemma constructor_exclusive: "exclusive (constructor configs)"
  by (simp add: exclusive_def constructor_def)

text \<open>
  C3. Whatever calls a client makes on a fresh session, in whatever order, the session
  never holds both an in-memory screenshot and a screenshot URL. The last check decides:
  after \<open>checkImage\<close> the screenshot is the one just given and the URL is undefined,
  after \<open>checkUrl\<close> the URL is the one just given and the screenshot is undefined. (The
  states are those between method calls; a method body runs to its end without
  interruption.)
\<close>

theorem screenshot_and_url_exclusive:
  "exclusive (perform_all cs (constructor configs))
   \<and> this_screenshot (perform_all (cs @ [CheckImage img t r]) (constructor configs))
       = Some (EyesSimpleScreenshot img)
   \<and> this_screenshotUrl (perform_all (cs @ [CheckImage img t r]) (constructor configs)) = JUndefined
   \<and> this_screenshot (perform_all (cs @ [CheckUrl u t r]) (constructor configs)) = None
   \<and> this_screenshotUrl (perform_all (cs @ [CheckUrl u t r]) (constructor configs)) = u"
  by (simp add: perform_all_exclusive constructor_exclusive perform_all_append
        checkImage_def checkUrl_def Let_def)

theorem screenshot_and_url_exclusive_witness:
  "exclusive (perform_all [CheckUrl (JStr ''http://img/1.png'') (JStr ''a'') (Resolved JUndefined)]
      (constructor example_configs))
   \<and> this_screenshot (perform_all ([CheckUrl (JStr ''http://img/1.png'') (JStr ''a'') (Resolved JUndefined)]
        @ [CheckImage \<lparr>image_width = 1024, image_height = 768\<rparr> (JStr ''b'') (Rejected (Error ''x''))])
        (constructor example_configs))
       = Some (EyesSimpleScreenshot \<lparr>image_width = 1024, image_height = 768\<rparr>)"
  using screenshot_and_url_exclusive
    [of "[CheckUrl (JStr ''http://img/1.png'') (JStr ''a'') (Resolved JUndefined)]" example_configs
        "\<lparr>image_width = 1024, image_height = 768\<rparr>" "JStr ''b''" "Rejected (Error ''x'')"]
  by simp

text \<open>
  C6, as stated, fails: a session opened with a declared viewport of 800x600 that then
  checks an image of 1024x768 answers \<open>getViewportSize\<close> with 1024x768, not with the
  declared value.
\<close>

theorem getViewportSize_counterexample:
  "this_viewportSizeHandler
     (perform_all
        [Open ''app'' ''story'' \<lparr>width = 800, height = 600\<rparr> (Resolved JUndefined),
         CheckImage \<lparr>image_width = 1024, image_height = 768\<rparr> (JStr ''story'') (Resolved JUndefined)]
        (constructor example_configs))
     = Some \<lparr>width = 800, height = 600\<rparr>
   \<and> getViewportSize
     (perform_all
        [Open ''app'' ''story'' \<lparr>width = 800, height = 600\<rparr> (Resolved JUndefined),
         CheckImage \<lparr>image_width = 1024, image_height = 768\<rparr> (JStr ''story'') (Resolved JUndefined)]
        (constructor example_configs))
     = Resolved (Some \<lparr>width = 1024, height = 768\<rparr>)"
  by (simp add: constructor_def example_configs_def open_test_def checkImage_def getViewportSize_def Let_def)

text \<open>
  C6, amended. \<open>getViewportSize\<close> tests the screenshot, not the viewport. Every session
  that holds an in-memory screenshot answers with that image's own width and height,
  whether or not a viewport size was declared, before or after the check; every session
  that holds none (never checked, or last checked by URL) answers with the content of the
  viewport-size handler. So once \<open>checkImage\<close> has stored an image the answer is the
  image's size, after \<open>checkUrl\<close> it is the handler's content, and a session whose viewport
  was never set answers with the size of its captured screenshot.
\<close>

theorem getViewportSize_follows_screenshot:
  "(this_screenshot this = Some (EyesSimpleScreenshot i) \<longrightarrow>
      getViewportSize this = Resolved (Some \<lparr>width = image_width i, height = image_height i\<rparr>))
   \<and> (this_screenshot this = None \<longrightarrow>
      getViewportSize this = Resolved (this_viewportSizeHandler this))
   \<and> getViewportSize (perform (CheckImage img t r) (perform_all cs (constructor configs)))
     = Resolved (Some \<lparr>width = image_width img, height = image_height img\<rparr>)
   \<and> getViewportSize (perform (CheckUrl u t r) (perform_all cs (constructor configs)))
     = Resolved (this_viewportSizeHandler (perform_all cs (constructor configs)))
   \<and> getViewportSize (perform (CheckImage img t r) (constructor configs))
     = Resolved (Some \<lparr>width = image_width img, height = image_height img\<rparr>)
   \<and> this_viewportSizeHandler (perform (CheckImage img t r) (constructor configs)) = None"
  by (simp add: getViewportSize_def checkImage_def checkUrl_def Let_def constructor_def)

theorem getViewportSize_follows_screenshot_witness:
  "this_screenshot
     (perform_all
        [CheckImage \<lparr>image_width = 1024, image_height = 768\<rparr> (JStr ''story'') (Resolved JUndefined),
         SetViewportSize \<lparr>width = 800, height = 600\<rparr>]
        (constructor example_configs))
     = Some (EyesSimpleScreenshot \<lparr>image_width = 1024, image_height = 768\<rparr>)
   \<and> getViewportSize
     (perform_all
        [CheckImage \<lparr>image_width = 1024, image_height = 768\<rparr> (JStr ''story'') (Resolved JUndefined),
         SetViewportSize \<lparr>width = 800, height = 600\<rparr>]
        (constructor example_configs))
     = Resolved (Some \<lparr>width = 1024, height = 768\<rparr>)
   \<and> this_screenshot
     (perform_all [Open ''app'' ''story'' \<lparr>width = 800, height = 600\<rparr> (Resolved JUndefined)]
        (constructor example_configs))
     = None
   \<and> getViewportSize
     (perform_all [Open ''app'' ''story'' \<lparr>width = 800, height = 600\<rparr> (Resolved JUndefined)]
        (constructor example_configs))
     = Resolved (Some \<lparr>width = 800, height = 600\<rparr>)
   \<and> getViewportSize
     (perform (CheckUrl (JStr ''http://img/1.png'') (JStr ''story'') (Resolved JUndefined))
        (perform_all [SetViewportSize \<lparr>width = 800, height = 600\<rparr>] (constructor example_configs)))
     = Resolved (Some \<lparr>width = 800, height = 600\<rparr>)"
proof -
  have a: "this_screenshot
     (perform_all
        [CheckImage \<lparr>image_width = 1024, image_height = 768\<rparr> (JStr ''story'') (Resolved JUndefined),
         SetViewportSize \<lparr>width = 800, height = 600\<rparr>]
        (constructor example_configs))
     = Some (EyesSimpleScreenshot \<lparr>image_width = 1024, image_height = 768\<rparr>)"
    by (simp add: checkImage_def setViewportSize_def Let_def)
  have b: "this_screenshot
     (perform_all [Open ''app'' ''story'' \<lparr>width = 800, height = 600\<rparr> (Resolved JUndefined)]
        (constructor example_configs))
     = None"
    by (simp add: open_test_def constructor_def)
  have c: "this_viewportSizeHandler
     (perform_all [Open ''app'' ''story'' \<lparr>width = 800, height = 600\<rparr> (Resolved JUndefined)]
        (constructor example_configs))
     = Some \<lparr>width = 800, height = 600\<rparr>"
    by (simp add: open_test_def)
  have d: "this_viewportSizeHandler
     (perform_all [SetViewportSize \<lparr>width = 800, height = 600\<rparr>] (constructor example_configs))
     = Some \<lparr>width = 800, height = 600\<rparr>"
    by (simp add: setViewportSize_def)
  from a b c d show ?thesis
    using getViewportSize_follows_screenshot
      [where this = "perform_all
        [CheckImage \<lparr>image_width = 1024, image_height = 768\<rparr> (JStr ''story'') (Resolved JUndefined),
         SetViewportSize \<lparr>width = 800, height = 600\<rparr>]
        (constructor example_configs)"
       and i = "\<lparr>image_width = 1024, image_height = 768\<rparr>"
       and cs = "[SetViewportSize \<lparr>width = 800, height = 600\<rparr>]"
       and configs = example_configs and u = "JStr ''http://img/1.png''"
       and t = "JStr ''story''" and r = "Resolved JUndefined"]
      getViewportSize_follows_screenshot
      [where this = "perform_all
        [Open ''app'' ''story'' \<lparr>width = 800, height = 600\<rparr> (Resolved JUndefined)]
        (constructor example_configs)"]
    by simp
qed

text \<open>
  C7. \<open>close\<close> resolves, for every session state and every \<open>throwEx\<close>, and returns
  the session as it was. In particular, after a checkpoint that succeeded or failed
  (\<open>r\<close> is either outcome) the record of checkpoints sent to the backend is still the
  one the check left: no second checkpoint is reported, and a client's call of
  \<open>close\<close> changes nothing.
\<close>

theorem close_resolves_unchanged:
  "close throwEx this = (Resolved JUndefined, this)
   \<and> checkSingleWindowBase_calls (snd (close throwEx (snd (checkImage img t r this))))
       = checkSingleWindowBase_calls this @ [t]
   \<and> checkSingleWindowBase_calls (snd (close throwEx (snd (checkUrl u t r this))))
       = checkSingleWindowBase_calls this @ [t]
   \<and> perform_all (cs @ [Close throwEx]) this = perform_all cs this"
  by (simp add: close_def checkImage_def checkUrl_def Let_def perform_all_append)

theorem close_resolves_unchanged_witness:
  "close (JBool True)
     (snd (checkImage \<lparr>image_width = 1024, image_height = 768\<rparr> (JStr ''story'')
        (Rejected (Error ''no connection'')) (constructor example_configs)))
   = (Resolved JUndefined,
      snd (checkImage \<lparr>image_width = 1024, image_height = 768\<rparr> (JStr ''story'')
        (Rejected (Error ''no connection'')) (constructor example_configs)))
   \<and> checkSingleWindowBase_calls
     (snd (close (JBool True)
        (snd (checkImage \<lparr>image_width = 1024, image_height = 768\<rparr> (JStr ''story'')
           (Rejected (Error ''no connection'')) (constructor example_configs)))))
     = [JStr ''story'']"
  using close_resolves_unchanged
    [of "JBool True"
        "snd (checkImage \<lparr>image_width = 1024, image_height = 768\<rparr> (JStr ''story'')
           (Rejected (Error ''no connection'')) (constructor example_configs))"
        "\<lparr>image_width = 1024, image_height = 768\<rparr>" "JStr ''story''" "Rejected (Error ''no connection'')"
        JUndefined "[]"]
  by (simp add: checkImage_def constructor_def Let_def)

text \<open>
  C10. A \<open>title\<close> argument that is omitted (\<open>JUndefined\<close>) or otherwise falsy makes the
  session's title the empty string, in \<open>checkImage\<close> and in \<open>checkUrl\<close>, whatever the
  backend answers; \<open>getTitle\<close> then resolves to the empty string.
\<close>

theorem falsy_title_becomes_empty:
  "\<not> truthy t \<Longrightarrow>
     this_title (snd (checkImage img t r this)) = JStr ''''
     \<and> getTitle (snd (checkImage img t r this)) = Resolved (JStr '''')
     \<and> this_title (snd (checkUrl u t r this)) = JStr ''''
     \<and> getTitle (snd (checkUrl u t r this)) = Resolved (JStr '''')"
  by (simp add: checkImage_def checkUrl_def getTitle_def js_or_def Let_def)

theorem falsy_title_becomes_empty_witness:
  "\<not> truthy JUndefined
   \<and> getTitle (snd (checkImage \<lparr>image_width = 1024, image_height = 768\<rparr> JUndefined
         (Resolved JUndefined) (constructor example_configs))) = Resolved (JStr '''')
   \<and> getTitle (snd (checkUrl (JStr ''http://img/1.png'') JUndefined
         (Resolved JUndefined) (constructor example_configs))) = Resolved (JStr '''')"
  using falsy_title_becomes_empty [of JUndefined "\<lparr>image_width = 1024, image_height = 768\<rparr>"
      "Resolved JUndefined" "constructor example_configs" "JStr ''http://img/1.png''"]
  by simp

section \<open>Properties of the results block\<close>

lemma string_of_nat_800: "string_of_nat 800 = ''800''"
  by (simp add: string_of_nat.simps digit_def)

lemma string_of_nat_600: "string_of_nat 600 = ''600''"
  by (simp add: string_of_nat.simps digit_def)

lemma string_of_nat_0: "string_of_nat 0 = ''0''"
  by (simp add: string_of_nat.simps digit_def)

lemma string_of_nat_1: "string_of_nat (Suc 0) = ''1''"
  by (simp add: string_of_nat.simps digit_def)

lemma fold_report_result_001_exit:
  "fst (fold report_result_001 rs acc) =
     (if list_ex not_new_not_passed rs \<and> fst acc < EYES_TEST_FAILED_EXIT_CODE
      then EYES_TEST_FAILED_EXIT_CODE else fst acc)"
  by (induction rs arbitrary: acc)
     (auto simp: report_result_001_def not_new_not_passed_def Let_def)

lemma fold_report_result_001_out:
  "snd (fold report_result_001 rs acc) = snd acc @ map summary_line rs"
  by (induction rs arbitrary: acc)
     (auto simp: report_result_001_def summary_line_def toString_def Let_def)

lemma display_results_001_output:
  "results \<noteq> [] \<Longrightarrow>
   console_output (display_results_001 args (Resolved results))
     = Log [Txt (CHR 0x0A # ''[EYES: TEST RESULTS]:'')] # map summary_line results
       @ [Log [Txt ''See details at'', Txt (getAppUrls_getBatch (results ! 0))]]"
  by (simp add: display_results_001_def process_exit_def Let_def fold_report_result_001_out)

text \<open>
  C1, as stated, fails twice. In part_001 a result that is neither new nor passed, with no
  mismatch and nothing missing, ends the process with the mismatch code. In part_000 a
  result with a mismatch ends the process with code 0: \<open>process.exit()\<close> is called
  without a code.
\<close>

theorem exit_code_counterexample:
  "exit_code (display_results_001 example_yargs (Resolved [unresolved_result]))
     = EYES_TEST_FAILED_EXIT_CODE
   \<and> getMismatches unresolved_result + getMissing unresolved_result = 0
   \<and> exit_code (display_results_000 example_yargs (Resolved [mismatch_result])) = 0
   \<and> getMismatches mismatch_result + getMissing mismatch_result = 1
   \<and> EYES_TEST_FAILED_EXIT_CODE = 130"
  by (simp add: display_results_001_def display_results_000_def process_exit_def
        report_result_001_def unresolved_result_def mismatch_result_def passed_result_def
        EYES_TEST_FAILED_EXIT_CODE_def Let_def)

text \<open>
  C1, amended. In both scripts a rejected run ends with the fatal code 1. A completed run
  of part_001 ends with the mismatch code 130 exactly when some result is neither new nor
  passed (the flags decide, not the counts), and with 0 otherwise. Every completed run of
  part_000 ends with 0: that script has no mismatch code. The three codes differ.
\<close>

theorem exit_code_law:
  "exit_code (display_results_001 args (Rejected err)) = 1
   \<and> exit_code (display_results_001 args (Resolved results))
       = (if list_ex not_new_not_passed results then EYES_TEST_FAILED_EXIT_CODE else 0)
   \<and> exit_code (display_results_000 args (Rejected err)) = 1
   \<and> exit_code (display_results_000 args (Resolved results)) = 0
   \<and> EYES_TEST_FAILED_EXIT_CODE \<noteq> 0 \<and> EYES_TEST_FAILED_EXIT_CODE \<noteq> 1"
proof -
  have "exit_code (display_results_001 args (Resolved results))
       = (if list_ex not_new_not_passed results then EYES_TEST_FAILED_EXIT_CODE else 0)"
    by (cases "results = []")
       (simp_all add: display_results_001_def process_exit_def Let_def
          fold_report_result_001_exit EYES_TEST_FAILED_EXIT_CODE_def)
  then show ?thesis
    by (simp add: display_results_001_def display_results_000_def process_exit_def Let_def
          EYES_TEST_FAILED_EXIT_CODE_def)
qed

theorem exit_code_law_witness:
  "exit_code (display_results_001 example_yargs (Resolved [passed_result, mismatch_result, new_result]))
     = 130
   \<and> exit_code (display_results_001 example_yargs (Resolved [passed_result, new_result])) = 0
   \<and> exit_code (display_results_001 example_yargs (Rejected (Error ''no connection''))) = 1"
  using exit_code_law [of example_yargs "Error ''no connection''" "[passed_result, mismatch_result, new_result]"]
    exit_code_law [of example_yargs "Error ''no connection''" "[passed_result, new_result]"]
  by (simp add: not_new_not_passed_def passed_result_def mismatch_result_def new_result_def
        EYES_TEST_FAILED_EXIT_CODE_def)

text \<open>
  C5, as stated, fails where it glosses "every result is new or passed" as "no result has
  mismatches + missing > 0": in a run of a passed result and a result that is neither new
  nor passed, neither with a mismatch or anything missing, part_001 exits with the
  mismatch code.
\<close>

theorem new_or_passed_gloss_counterexample:
  "getMismatches passed_result + getMissing passed_result = 0
   \<and> getMismatches unresolved_result + getMissing unresolved_result = 0
   \<and> exit_code (display_results_001 example_yargs (Resolved [passed_result, unresolved_result]))
       = 130"
  by (simp add: display_results_001_def process_exit_def report_result_001_def
        unresolved_result_def passed_result_def EYES_TEST_FAILED_EXIT_CODE_def Let_def)

text \<open>
  C5, amended. When every result of a completed run is new or passed (by its flags),
  part_001 exits with 0; a new result alone never makes the exit code non-zero.
\<close>

theorem new_or_passed_exit_zero:
  assumes "\<forall>r \<in> set results. getIsNew r \<or> isPassed r"
  shows "exit_code (display_results_001 args (Resolved results)) = 0"
proof -
  from assms have "\<not> list_ex not_new_not_passed results"
    by (auto simp: list_ex_iff not_new_not_passed_def)
  then show ?thesis
    by (cases "results = []")
       (simp_all add: display_results_001_def process_exit_def Let_def
          fold_report_result_001_exit)
qed

theorem new_or_passed_exit_zero_witness:
  "(getIsNew new_result \<or> isPassed new_result) \<and> (getIsNew passed_result \<or> isPassed passed_result)
   \<and> exit_code (display_results_001 example_yargs (Resolved [new_result, passed_result])) = 0"
  using new_or_passed_exit_zero [of "[new_result, passed_result]" example_yargs]
  by (simp add: new_result_def passed_result_def)

text \<open>
  C9. A run that completes with no results prints the one line "Test is finished but no
  results returned." and exits with 0, in both scripts.
\<close>

theorem empty_results_exit_zero:
  "display_results_001 args (Resolved [])
     = Exit 0 [Log [Txt ''Test is finished but no results returned.'']]
   \<and> display_results_000 args (Resolved [])
     = Exit 0 [Log [Txt ''Test is finished but no results returned.'']]"
  by (simp add: display_results_001_def display_results_000_def process_exit_def)

theorem empty_results_exit_zero_witness:
  "exit_code (display_results_001 example_yargs (Resolved [])) = 0
   \<and> console_output (display_results_001 example_yargs (Resolved []))
       = [Log [Txt ''Test is finished but no results returned.'']]
   \<and> exit_code (display_results_000 example_yargs (Resolved [])) = 0"
  using empty_results_exit_zero [of example_yargs]
  by simp

text \<open>
  C4, as stated, fails: a result that is neither new nor passed is reported as failed
  also when it has no mismatch and nothing missing; its line reads "Failed 0 of 1".
\<close>

theorem failed_label_counterexample:
  "report_result_001 unresolved_result (0, [])
     = (130, [Log [Txt ''Button [800x600] - '', Red ''Failed 0 of 1'']])
   \<and> getMismatches unresolved_result + getMissing unresolved_result = 0"
  by (simp add: report_result_001_def unresolved_result_def passed_result_def toString_def
        EYES_TEST_FAILED_EXIT_CODE_def Let_def string_of_nat_800 string_of_nat_600 string_of_nat_0 string_of_nat_1)

text \<open>
  C4, amended. part_001 prints, between the heading and the pointer to the batch, one
  summary line per result in order. A result is reported as failed exactly when it is
  neither new nor passed; its line then carries the red label "Failed k of n", with k the
  sum of mismatches and missing and n the number of steps.
\<close>

theorem failed_label:
  "console_output (display_results_001 args (Resolved (r # rs)))
     = Log [Txt (CHR 0x0A # ''[EYES: TEST RESULTS]:'')] # map summary_line (r # rs)
       @ [Log [Txt ''See details at'', Txt (getAppUrls_getBatch r)]]
   \<and> reported_failed (summary_line r) = (\<not> getIsNew r \<and> \<not> isPassed r)
   \<and> (\<not> getIsNew r \<and> \<not> isPassed r \<longrightarrow>
        summary_line r = Log [Txt (getName r @ '' ['' @ toString (getHostDisplaySize r) @ ''] - ''),
           Red (''Failed '' @ string_of_nat (getMismatches r + getMissing r) @ '' of ''
                @ string_of_nat (getSteps r))])"
  using display_results_001_output [of "r # rs" args]
  by (simp add: summary_line_def toString_def)

theorem failed_label_witness:
  "reported_failed (summary_line mismatch_result)
   \<and> summary_line mismatch_result = Log [Txt ''Button [800x600] - '', Red ''Failed 1 of 1'']
   \<and> \<not> reported_failed (summary_line new_result)
   \<and> \<not> reported_failed (summary_line passed_result)"
  using failed_label [of example_yargs mismatch_result "[]"]
    failed_label [of example_yargs new_result "[]"]
    failed_label [of example_yargs passed_result "[]"]
  by (simp add: mismatch_result_def new_result_def passed_result_def toString_def string_of_nat_800 string_of_nat_600 string_of_nat_1)

section \<open>Properties of the validation\<close>

lemma forEach_viewportSize_001_lacking:
  "list_ex lacks_width_or_height entries \<Longrightarrow> \<exists>err. forEach_viewportSize_001 entries = Inl err"
proof (induction entries)
  case Nil
  then show ?case by simp
next
  case (Cons v vs)
  show ?case
  proof (cases "lacks_width_or_height v")
    case True
    then show ?thesis
      by (cases v) (auto simp: lacks_width_or_height_def js_and_def split: option.splits)
  next
    case False
    with Cons show ?thesis
      by (auto split: sum.splits)
  qed
qed

lemma for_viewportSize_000_lacking:
  "list_ex lacks_width_or_height entries \<Longrightarrow> \<exists>err. for_viewportSize_000 entries = Inl err"
proof (induction entries)
  case Nil
  then show ?case by simp
next
  case (Cons v vs)
  show ?case
  proof (cases "lacks_width_or_height v")
    case True
    then show ?thesis
      by (cases v) (auto simp: lacks_width_or_height_def split: option.splits)
  next
    case False
    with Cons show ?thesis
      by (auto split: sum.splits)
  qed
qed

lemma viewportSize_step_entries:
  "truthy (viewportSize c) \<Longrightarrow>
   viewportSize_step loop c =
     (case loop (viewport_entries (viewportSize c)) of
        Inl err \<Rightarrow> Inl err
      | Inr u \<Rightarrow> Inr (if isArray (viewportSize c) then c
                      else c\<lparr>viewportSize := JArr [viewportSize c]\<rparr>))"
  by (cases "viewportSize c")
     (simp_all add: viewportSize_step_def viewport_entries_def isArray_def split: sum.splits)

lemma viewportSize_step_lacking:
  assumes "list_ex lacks_width_or_height (viewport_entries (viewportSize c))"
    and "\<And>entries. list_ex lacks_width_or_height entries \<Longrightarrow> \<exists>err. loop entries = Inl err"
  shows "\<exists>err. viewportSize_step loop c = Inl err"
proof -
  from assms(1) have t: "truthy (viewportSize c)"
    by (auto simp: viewport_entries_def split: if_splits)
  from assms(2) [OF assms(1)] obtain err
    where "loop (viewport_entries (viewportSize c)) = Inl err" ..
  with t show ?thesis
    by (simp add: viewportSize_step_entries)
qed

lemma storybookAddress_step_viewportSize:
  "storybookAddress_step c = Inr c' \<Longrightarrow> viewportSize c' = viewportSize c"
  by (auto simp: storybookAddress_step_def split: if_splits jsval.splits)

lemma validating_configuration_001_invalid:
  assumes "\<not> truthy (apiKey c) \<or> list_ex lacks_width_or_height (viewport_entries (viewportSize c))"
  shows "\<exists>err. validating_configuration_001 args c = Inl err"
proof (cases "truthy (apiKey c)")
  case False
  then show ?thesis by (simp add: validating_configuration_001_def Let_def)
next
  case True
  with assms have l: "list_ex lacks_width_or_height (viewport_entries (viewportSize c))" by simp
  define c1 where "c1 = (if yargs_browser args then c\<lparr>useVisualGrid := JBool False\<rparr> else c)"
  define c2 where "c2 = (if yargs_build args then c1\<lparr>skipStorybookBuild := JBool False\<rparr> else c1)"
  have v: "viewportSize c2 = viewportSize c" by (simp add: c1_def c2_def)
  have step: "\<exists>err. (case storybookAddress_step c2 of Inl err \<Rightarrow> Inl err
        | Inr c' \<Rightarrow> viewportSize_step forEach_viewportSize_001 c') = Inl err"
  proof (cases "storybookAddress_step c2")
    case (Inl e)
    then show ?thesis by simp
  next
    case (Inr c')
    then have "viewportSize c' = viewportSize c"
      using storybookAddress_step_viewportSize v by simp
    with l have "\<exists>err. viewportSize_step forEach_viewportSize_001 c' = Inl err"
      by (intro viewportSize_step_lacking forEach_viewportSize_001_lacking) simp_all
    with Inr show ?thesis by simp
  qed
  have "validating_configuration_001 args c =
     (if \<not> truthy (apiKey c2) then Inl (Error apiKey_missing)
        else if \<not> truthy (maxConcurrency c2) \<and> maxConcurrency c2 \<noteq> JNum 0
          then Inl (Error ''maxConcurrency should be defined.'')
        else if truthy (storybookApp c2)
                \<and> \<not> includes_val SUPPORTED_STORYBOOK3_APPS (storybookApp c2)
          then Inl (Error
            ''storybookApp should be one of [react,vue,react-native,angular,polymer].'')
        else if truthy (storybookVersion c2)
                \<and> \<not> includes_val [JNum 2, JNum 3] (storybookVersion c2)
          then Inl (Error ''storybookVersion should be 2 or 3.'')
        else
          (case storybookAddress_step c2 of
             Inl err \<Rightarrow> Inl err
           | Inr configs \<Rightarrow> viewportSize_step forEach_viewportSize_001 configs))"
    unfolding validating_configuration_001_def Let_def c2_def c1_def by (rule refl)
  with step show ?thesis by auto
qed

lemma validating_configuration_000_invalid:
  assumes "\<not> truthy (apiKey c) \<or> list_ex lacks_width_or_height (viewport_entries (viewportSize c))"
  shows "\<exists>err. validating_configuration_000 c = Inl err"
proof (cases "truthy (apiKey c)")
  case False
  then show ?thesis by (simp add: validating_configuration_000_def)
next
  case True
  with assms have l: "list_ex lacks_width_or_height (viewport_entries (viewportSize c))" by simp
  have step: "\<exists>err. (case storybookAddress_step c of Inl err \<Rightarrow> Inl err
        | Inr c' \<Rightarrow> viewportSize_step for_viewportSize_000 c') = Inl err"
  proof (cases "storybookAddress_step c")
    case (Inl e)
    then show ?thesis by simp
  next
    case (Inr c')
    then have "viewportSize c' = viewportSize c"
      using storybookAddress_step_viewportSize by simp
    with l have "\<exists>err. viewportSize_step for_viewportSize_000 c' = Inl err"
      by (intro viewportSize_step_lacking for_viewportSize_000_lacking) simp_all
    with Inr show ?thesis by simp
  qed
  then show ?thesis
    unfolding validating_configuration_000_def by auto
qed

text \<open>
  C8. When the API key is missing (falsy), or some entry of the viewport-size setting
  lacks a \<open>width\<close> or a \<open>height\<close> property, the validation of either script throws, and
  the script ends on that uncaught error whatever its surroundings are: the promise chain
  that runs the stories is never started, so no result is produced.
\<close>

theorem invalid_configuration_aborts:
  assumes "\<not> truthy (apiKey c) \<or> list_ex lacks_width_or_height (viewport_entries (viewportSize c))"
  shows "(\<exists>err. validating_configuration_001 args c = Inl err
            \<and> (\<forall>env. eyes_storybook_001 args env c = Uncaught err))
       \<and> (\<exists>err. validating_configuration_000 c = Inl err
            \<and> (\<forall>env. eyes_storybook_000 args env c = Uncaught err))"
proof -
  from validating_configuration_001_invalid [OF assms, of args]
  have "\<exists>err. validating_configuration_001 args c = Inl err
            \<and> (\<forall>env. eyes_storybook_001 args env c = Uncaught err)"
    by (auto simp: eyes_storybook_001_def)
  moreover from validating_configuration_000_invalid [OF assms]
  have "\<exists>err. validating_configuration_000 c = Inl err
            \<and> (\<forall>env. eyes_storybook_000 args env c = Uncaught err)"
    by (auto simp: eyes_storybook_000_def)
  ultimately show ?thesis by simp
qed

theorem invalid_configuration_aborts_witness:
  "\<not> truthy (apiKey undefined_configs)
   \<and> list_ex lacks_width_or_height (viewport_entries (viewportSize no_height_configs))
   \<and> eyes_storybook_001 example_yargs example_environment undefined_configs
       = Uncaught (Error apiKey_missing)
   \<and> eyes_storybook_001 example_yargs example_environment no_height_configs
       = Uncaught (Error viewportSize_invalid)
   \<and> eyes_storybook_000 example_yargs example_environment no_height_configs
       = Uncaught (Error viewportSize_invalid)"
proof -
  have a: "\<not> truthy (apiKey undefined_configs)"
    by (simp add: undefined_configs_def)
  have b: "list_ex lacks_width_or_height (viewport_entries (viewportSize no_height_configs))"
    by (simp add: no_height_configs_def undefined_configs_def viewport_entries_def
          lacks_width_or_height_def)
  have v1: "validating_configuration_001 example_yargs undefined_configs = Inl (Error apiKey_missing)"
    by (simp add: validating_configuration_001_def undefined_configs_def example_yargs_def)
  have v2: "validating_configuration_001 example_yargs no_height_configs = Inl (Error viewportSize_invalid)"
    by (simp add: validating_configuration_001_def no_height_configs_def undefined_configs_def
          example_yargs_def storybookAddress_step_def viewportSize_step_def isArray_def js_and_def)
  have v3: "validating_configuration_000 no_height_configs = Inl (Error viewportSize_invalid)"
    by (simp add: validating_configuration_000_def no_height_configs_def undefined_configs_def
          storybookAddress_step_def viewportSize_step_def isArray_def)
  from invalid_configuration_aborts [of undefined_configs example_yargs] a v1
  have "eyes_storybook_001 example_yargs example_environment undefined_configs
       = Uncaught (Error apiKey_missing)"
    by auto
  moreover from invalid_configuration_aborts [of no_height_configs example_yargs] b v2 v3
  have "eyes_storybook_001 example_yargs example_environment no_height_configs
       = Uncaught (Error viewportSize_invalid)
     \<and> eyes_storybook_000 example_yargs example_environment no_height_configs
       = Uncaught (Error viewportSize_invalid)"
    by auto
  ultimately show ?thesis using a b by simp
qed

lemma get_property_errors: "get_property v name \<noteq> Inl (Error m)"
  by (cases v) (auto split: option.splits)

lemma forEach_viewportSize_001_errors:
  "forEach_viewportSize_001 entries = Inl (Error m) \<Longrightarrow> m = viewportSize_invalid"
  by (induction entries) (auto simp: get_property_errors split: sum.splits if_splits)

lemma for_viewportSize_000_errors:
  "for_viewportSize_000 entries = Inl (Error m) \<Longrightarrow> m = viewportSize_invalid"
  by (induction entries) (auto simp: get_property_errors split: sum.splits if_splits)

lemma viewportSize_step_errors:
  assumes "viewportSize_step loop c = Inl (Error m)"
    and "\<And>entries m. loop entries = Inl (Error m) \<Longrightarrow> m = viewportSize_invalid"
  shows "m = viewportSize_invalid"
proof (cases "truthy (viewportSize c)")
  case True
  with assms(1) have "loop (viewport_entries (viewportSize c)) = Inl (Error m)"
    by (simp add: viewportSize_step_entries split: sum.splits)
  then show ?thesis by (rule assms(2))
next
  case False
  with assms(1) show ?thesis by (simp add: viewportSize_step_def)
qed

lemma storybookAddress_step_errors: "storybookAddress_step c \<noteq> Inl (Error m)"
  by (auto simp: storybookAddress_step_def split: jsval.splits)

lemma address_then_viewport_errors:
  assumes "(case storybookAddress_step c of
             Inl err \<Rightarrow> Inl err
           | Inr configs \<Rightarrow> viewportSize_step loop configs) = Inl (Error m)"
    and "\<And>entries m. loop entries = Inl (Error m) \<Longrightarrow> m = viewportSize_invalid"
  shows "m = viewportSize_invalid"
proof (cases "storybookAddress_step c")
  case (Inl e)
  with assms(1) show ?thesis by (simp add: storybookAddress_step_errors)
next
  case (Inr c')
  with assms(1) have "viewportSize_step loop c' = Inl (Error m)" by simp
  then show ?thesis using assms(2) by (rule viewportSize_step_errors)
qed

lemma zero_passes_001:
  assumes "maxConcurrency c = JNum 0"
  shows "validating_configuration_001 args c \<noteq> Inl (Error ''maxConcurrency should be defined.'')"
proof
  assume a: "validating_configuration_001 args c = Inl (Error ''maxConcurrency should be defined.'')"
  define c1 where "c1 = (if yargs_browser args then c\<lparr>useVisualGrid := JBool False\<rparr> else c)"
  define c2 where "c2 = (if yargs_build args then c1\<lparr>skipStorybookBuild := JBool False\<rparr> else c1)"
  have m: "maxConcurrency c2 = JNum 0" using assms by (simp add: c1_def c2_def)
  have "validating_configuration_001 args c =
     (if \<not> truthy (apiKey c2) then Inl (Error apiKey_missing)
        else if \<not> truthy (maxConcurrency c2) \<and> maxConcurrency c2 \<noteq> JNum 0
          then Inl (Error ''maxConcurrency should be defined.'')
        else if truthy (storybookApp c2)
                \<and> \<not> includes_val SUPPORTED_STORYBOOK3_APPS (storybookApp c2)
          then Inl (Error
            ''storybookApp should be one of [react,vue,react-native,angular,polymer].'')
        else if truthy (storybookVersion c2)
                \<and> \<not> includes_val [JNum 2, JNum 3] (storybookVersion c2)
          then Inl (Error ''storybookVersion should be 2 or 3.'')
        else
          (case storybookAddress_step c2 of
             Inl err \<Rightarrow> Inl err
           | Inr configs \<Rightarrow> viewportSize_step forEach_viewportSize_001 configs))"
    unfolding validating_configuration_001_def Let_def c2_def c1_def by (rule refl)
  with a m have "(case storybookAddress_step c2 of
             Inl err \<Rightarrow> Inl err
           | Inr configs \<Rightarrow> viewportSize_step forEach_viewportSize_001 configs)
         = Inl (Error ''maxConcurrency should be defined.'')"
    by (simp add: apiKey_missing_def split: if_splits)
  then have "''maxConcurrency should be defined.'' = viewportSize_invalid"
    using forEach_viewportSize_001_errors by (rule address_then_viewport_errors)
  then show False by (simp add: viewportSize_invalid_def)
qed

lemma zero_passes_000:
  assumes "maxRunningBrowsers c = JNum 0"
  shows "validating_configuration_000 c \<noteq> Inl (Error ''maxRunningBrowsers should be defined.'')"
proof
  assume a: "validating_configuration_000 c = Inl (Error ''maxRunningBrowsers should be defined.'')"
  with assms have "(case storybookAddress_step c of
             Inl err \<Rightarrow> Inl err
           | Inr configs \<Rightarrow> viewportSize_step for_viewportSize_000 configs)
         = Inl (Error ''maxRunningBrowsers should be defined.'')"
    by (simp add: validating_configuration_000_def apiKey_missing_def split: if_splits)
  then have "''maxRunningBrowsers should be defined.'' = viewportSize_invalid"
    using for_viewportSize_000_errors by (rule address_then_viewport_errors)
  then show False by (simp add: viewportSize_invalid_def)
qed

text \<open>
  C2, as stated, fails: with a concurrency limit of 0 (and an API key) the validation of
  either script throws nothing and hands the configuration on unchanged; with a runner
  that reports one passed story, part_001 prints that story and exits with 0.
\<close>

theorem zero_concurrency_counterexample:
  "validating_configuration_001 example_yargs zero_concurrency_configs = Inr zero_concurrency_configs
   \<and> validating_configuration_000 zero_concurrency_configs = Inr zero_concurrency_configs
   \<and> maxConcurrency zero_concurrency_configs = JNum 0
   \<and> maxRunningBrowsers zero_concurrency_configs = JNum 0
   \<and> eyes_storybook_001 example_yargs example_environment zero_concurrency_configs
       = Exit 0 [Log [Txt (CHR 0x0A # ''[EYES: TEST RESULTS]:'')],
                 Log [Txt ''Button [800x600] - '', Green ''Passed''],
                 Log [Txt ''See details at'', Txt ''https://eyes.applitools.com/app/batches/1'']]"
  by (simp add: validating_configuration_001_def validating_configuration_000_def
        zero_concurrency_configs_def undefined_configs_def example_yargs_def
        storybookAddress_step_def viewportSize_step_def eyes_storybook_001_def
        example_environment_def complete_configs_def display_results_001_def process_exit_def
        report_result_001_def passed_result_def toString_def string_of_nat_800 string_of_nat_600 Let_def)

text \<open>
  C2, amended. With an API key present, a concurrency limit that is missing (falsy and
  not the number 0: undefined, null, false, NaN, the empty string) makes the validation
  throw "maxConcurrency should be defined." in part_001 and "maxRunningBrowsers should be
  defined." in part_000, and the script ends on that uncaught error before the promise
  chain that runs the stories is started. A limit equal to 0 never raises that error: the
  test exempts it.
\<close>

theorem missing_concurrency_rejected:
  assumes "truthy (apiKey c)"
  shows "(\<not> truthy (maxConcurrency c) \<and> maxConcurrency c \<noteq> JNum 0 \<longrightarrow>
            validating_configuration_001 args c = Inl (Error ''maxConcurrency should be defined.'')
            \<and> (\<forall>env. eyes_storybook_001 args env c
                        = Uncaught (Error ''maxConcurrency should be defined.'')))
       \<and> (maxConcurrency c = JNum 0 \<longrightarrow>
            validating_configuration_001 args c \<noteq> Inl (Error ''maxConcurrency should be defined.''))
       \<and> (\<not> truthy (maxRunningBrowsers c) \<and> maxRunningBrowsers c \<noteq> JNum 0 \<longrightarrow>
            validating_configuration_000 c = Inl (Error ''maxRunningBrowsers should be defined.'')
            \<and> (\<forall>env. eyes_storybook_000 args env c
                        = Uncaught (Error ''maxRunningBrowsers should be defined.'')))
       \<and> (maxRunningBrowsers c = JNum 0 \<longrightarrow>
            validating_configuration_000 c \<noteq> Inl (Error ''maxRunningBrowsers should be defined.''))"
proof -
  have 1: "validating_configuration_001 args c = Inl (Error ''maxConcurrency should be defined.'')"
    if "\<not> truthy (maxConcurrency c)" "maxConcurrency c \<noteq> JNum 0"
    using that assms by (simp add: validating_configuration_001_def Let_def)
  have 2: "validating_configuration_000 c = Inl (Error ''maxRunningBrowsers should be defined.'')"
    if "\<not> truthy (maxRunningBrowsers c)" "maxRunningBrowsers c \<noteq> JNum 0"
    using that assms by (simp add: validating_configuration_000_def)
  show ?thesis
    using 1 2 zero_passes_001 [of c args] zero_passes_000 [of c]
    by (simp add: eyes_storybook_001_def eyes_storybook_000_def)
qed

theorem missing_concurrency_rejected_witness:
  "truthy (apiKey missing_concurrency_configs)
   \<and> \<not> truthy (maxConcurrency missing_concurrency_configs)
   \<and> maxConcurrency missing_concurrency_configs \<noteq> JNum 0
   \<and> eyes_storybook_001 example_yargs example_environment missing_concurrency_configs
       = Uncaught (Error ''maxConcurrency should be defined.'')
   \<and> eyes_storybook_000 example_yargs example_environment missing_concurrency_configs
       = Uncaught (Error ''maxRunningBrowsers should be defined.'')
   \<and> truthy (apiKey zero_concurrency_configs)
   \<and> maxConcurrency zero_concurrency_configs = JNum 0
   \<and> validating_configuration_001 example_yargs zero_concurrency_configs
       \<noteq> Inl (Error ''maxConcurrency should be defined.'')
   \<and> validating_configuration_000 zero_concurrency_configs
       \<noteq> Inl (Error ''maxRunningBrowsers should be defined.'')"
  using missing_concurrency_rejected [of missing_concurrency_configs example_yargs]
    missing_concurrency_rejected [of zero_concurrency_configs example_yargs]
  by (simp add: missing_concurrency_configs_def zero_concurrency_configs_def undefined_configs_def)

end
